theory Spec2Isabelle
  imports Complex_Main "HOL-Library.AList" "HOL-Library.Sublist"
begin

section \<open>Python values used by the weather proxy\<close>

text \<open>
  A Python \<open>str\<close> is a \<open>string\<close>: a list of code points below 256. A \<open>dict\<close> with
  string keys is an association list in insertion order; \<open>AList.update\<close> is the
  assignment \<open>d[k] = v\<close> (an existing key keeps its place, a new key goes last).
  Timestamps (\<open>time.time()\<close>) are real numbers.
\<close>

definition lower_char :: "char \<Rightarrow> char" where
  "lower_char c =
     (let n = (of_char c :: nat)
      in if (65 \<le> n \<and> n \<le> 90) \<or> (192 \<le> n \<and> n \<le> 222 \<and> n \<noteq> 215)
         then char_of (n + 32) else c)"

text \<open>\<open>s.lower()\<close>\<close>

definition lower :: "string \<Rightarrow> string" where
  "lower s = map lower_char s"

text \<open>\<open>s.startswith(p)\<close>\<close>

fun startswith :: "string \<Rightarrow> string \<Rightarrow> bool" where
  "startswith s [] = True"
| "startswith [] (p # ps) = False"
| "startswith (c # cs) (p # ps) = (c = p \<and> startswith cs ps)"

text \<open>\<open>needle in hay\<close> on strings: \<open>needle\<close> occurs as a contiguous part of \<open>hay\<close>.\<close>

fun contains :: "string \<Rightarrow> string \<Rightarrow> bool" where
  "contains needle [] = (needle = [])"
| "contains needle (h # hs) = (startswith (h # hs) needle \<or> contains needle hs)"

text \<open>\<open>sep.join(parts)\<close>\<close>

fun join_str :: "string \<Rightarrow> string list \<Rightarrow> string" where
  "join_str sep [] = []"
| "join_str sep [x] = x"
| "join_str sep (x # y # ys) = x @ sep @ join_str sep (y # ys)"

text \<open>\<open>d.get(k, dflt)\<close>\<close>

definition dict_get :: "('k \<times> 'v) list \<Rightarrow> 'k \<Rightarrow> 'v \<Rightarrow> 'v" where
  "dict_get d k dflt = (case map_of d k of None \<Rightarrow> dflt | Some v \<Rightarrow> v)"

subsection \<open>\<open>json.dumps\<close> on a dictionary of strings\<close>

text \<open>
  The standard encoder with its defaults (\<open>ensure_ascii\<close>, separators \<open>", "\<close> and
  \<open>": "\<close>): a string is quoted, the backslash, the double quote and the control
  characters are escaped, and every other code point outside \<open>' '..'~'\<close> is written
  \<open>\uXXXX\<close>.
\<close>

definition hex_digit :: "nat \<Rightarrow> char" where
  "hex_digit n = ''0123456789abcdef'' ! (n mod 16)"

definition json_escape_char :: "char \<Rightarrow> string" where
  "json_escape_char c =
     (if c = CHR 0x5C then [CHR 0x5C, CHR 0x5C]
      else if c = CHR 0x22 then [CHR 0x5C, CHR 0x22]
      else if c = CHR 0x08 then [CHR 0x5C, CHR ''b'']
      else if c = CHR 0x0C then [CHR 0x5C, CHR ''f'']
      else if c = CHR 0x0A then [CHR 0x5C, CHR ''n'']
      else if c = CHR 0x0D then [CHR 0x5C, CHR ''r'']
      else if c = CHR 0x09 then [CHR 0x5C, CHR ''t'']
      else (let n = (of_char c :: nat)
            in if 32 \<le> n \<and> n \<le> 126 then [c]
               else [CHR 0x5C, CHR ''u'', CHR ''0'', CHR ''0'',
                     hex_digit (n div 16), hex_digit n]))"

definition json_string :: "string \<Rightarrow> string" where
  "json_string s = [CHR 0x22] @ concat (map json_escape_char s) @ [CHR 0x22]"

definition json_dumps :: "(string \<times> string) list \<Rightarrow> string" where
  "json_dumps d =
     ''{'' @ join_str '', '' (map (\<lambda>(k, v). json_string k @ '': '' @ json_string v) d) @ ''}''"

section \<open>The callable server module (anvil-weather-proxy/main.py)\<close>

subsection \<open>Rate limiting\<close>

text \<open>
  \<open>request_cache\<close> maps a client address to the list of its request times. The two
  module globals \<open>RATE_LIMIT_WINDOW\<close> and \<open>RATE_LIMIT_MAX\<close> are read at every call; the
  model passes them in a record, and \<open>module_limits\<close> holds the values the module
  assigns.
\<close>

type_synonym request_cache = "(string \<times> real list) list"

record limits =
  RATE_LIMIT_WINDOW :: real
  RATE_LIMIT_MAX :: int

definition module_limits :: limits where
  "module_limits = \<lparr>RATE_LIMIT_WINDOW = 900, RATE_LIMIT_MAX = 1000\<rparr>"

text \<open>
  \<open>rate_limit_check(client_ip)\<close>, with the clock reading \<open>now\<close> and the cache made
  explicit: the result is the returned flag and the cache as the call leaves it.
\<close>

definition rate_limit_check ::
  "limits \<Rightarrow> real \<Rightarrow> string \<Rightarrow> request_cache \<Rightarrow> bool \<times> request_cache" where
  "rate_limit_check L now client_ip c0 =
     (let c1 = AList.update client_ip
                 [req_time \<leftarrow> dict_get c0 client_ip []. now - req_time < RATE_LIMIT_WINDOW L] c0
      in if RATE_LIMIT_MAX L \<le> int (length (dict_get c1 client_ip []))
         then (False, c1)
         else (let c2 = (if map_of c1 client_ip = None
                         then AList.update client_ip [] c1 else c1);
                   c3 = AList.update client_ip (dict_get c2 client_ip [] @ [now]) c2
               in (True, c3)))"

text \<open>A run of calls for one client, one per clock reading, in order.\<close>

fun rate_limit_run ::
  "limits \<Rightarrow> real list \<Rightarrow> string \<Rightarrow> request_cache \<Rightarrow> bool list \<times> request_cache" where
  "rate_limit_run L [] client_ip c = ([], c)"
| "rate_limit_run L (now # rest) client_ip c =
     (let (ok, c1) = rate_limit_check L now client_ip c;
          (oks, c2) = rate_limit_run L rest client_ip c1
      in (ok # oks, c2))"

subsection \<open>Two calls at once\<close>

text \<open>
  \<open>rate_limit_check\<close> takes no lock. Its body is three statements, each reading or
  writing \<open>request_cache\<close>: the assignment that prunes, the comparison that may return
  \<open>False\<close>, and the append followed by \<open>return True\<close>. A call is at one of them, or has
  returned.
\<close>

datatype call_state = At_prune | At_compare | At_append | Done bool

text \<open>One statement of a call whose clock reading is \<open>now\<close>, on the shared cache.\<close>

fun step_call ::
  "limits \<Rightarrow> real \<Rightarrow> string \<Rightarrow> call_state \<times> request_cache \<Rightarrow> call_state \<times> request_cache" where
  "step_call L now client_ip (At_prune, c) =
     (At_compare,
      AList.update client_ip
        [req_time \<leftarrow> dict_get c client_ip []. now - req_time < RATE_LIMIT_WINDOW L] c)"
| "step_call L now client_ip (At_compare, c) =
     (if RATE_LIMIT_MAX L \<le> int (length (dict_get c client_ip []))
      then Done False else At_append, c)"
| "step_call L now client_ip (At_append, c) =
     (let c2 = (if map_of c client_ip = None then AList.update client_ip [] c else c)
      in (Done True, AList.update client_ip (dict_get c2 client_ip [] @ [now]) c2))"
| "step_call L now client_ip (Done b, c) = (Done b, c)"

text \<open>
  Two calls \<open>A\<close> and \<open>B\<close> for the same client on one cache. The schedule says whose
  statement runs next: \<open>True\<close> for \<open>A\<close>, \<open>False\<close> for \<open>B\<close>.
\<close>

fun interleave ::
  "limits \<Rightarrow> string \<Rightarrow> real \<Rightarrow> real \<Rightarrow> bool list
     \<Rightarrow> call_state \<times> call_state \<times> request_cache
     \<Rightarrow> call_state \<times> call_state \<times> request_cache" where
  "interleave L client_ip now_a now_b [] s = s"
| "interleave L client_ip now_a now_b (turn # rest) (a, b, c) =
     (if turn
      then (let (a1, c1) = step_call L now_a client_ip (a, c)
            in interleave L client_ip now_a now_b rest (a1, b, c1))
      else (let (b1, c1) = step_call L now_b client_ip (b, c)
            in interleave L client_ip now_a now_b rest (a, b1, c1)))"

subsection \<open>The outbound request\<close>

text \<open>
  \<open>requests.get(url, headers, timeout, allow_redirects=True)\<close> is the environment: it
  answers with a response (status code, text, headers), raises \<open>Timeout\<close>, raises
  another \<open>RequestException\<close>, or raises something else, which
  \<open>make_proxy_request\<close> does not catch.
\<close>

datatype get_outcome =
    Response int string "(string \<times> string) list"
  | Timeout
  | RequestException string
  | OtherError string

type_synonym requests_get = "string \<Rightarrow> (string \<times> string) list \<Rightarrow> int \<Rightarrow> get_outcome"

record proxy_result =
  status :: int
  content :: string
  headers :: "(string \<times> string) list"
  success :: bool

definition proxy_headers :: "(string \<times> string) list" where
  "proxy_headers =
     [(''User-Agent'', ''FastPlanner-Weather-Proxy/1.0 (Aviation Weather Service)''),
      (''Accept'', ''application/json, text/plain, */*''),
      (''Accept-Encoding'', ''gzip, deflate''),
      (''Connection'', ''keep-alive'')]"

definition make_proxy_request ::
  "requests_get \<Rightarrow> string \<Rightarrow> int \<Rightarrow> string + proxy_result" where
  "make_proxy_request get target_url timeout =
     (case get target_url proxy_headers timeout of
        Response status_code text hs \<Rightarrow>
          Inr \<lparr>status = status_code, content = text, headers = hs, success = True\<rparr>
      | Timeout \<Rightarrow>
          Inr \<lparr>status = 408,
               content = json_dumps [(''error'', ''Request timeout''), (''service'', ''weather'')],
               headers = [(''Content-Type'', ''application/json'')],
               success = False\<rparr>
      | RequestException e \<Rightarrow>
          Inr \<lparr>status = 500,
               content = json_dumps [(''error'', e), (''service'', ''weather'')],
               headers = [(''Content-Type'', ''application/json'')],
               success = False\<rparr>
      | OtherError e \<Rightarrow> Inl e)"

definition rate_limited :: "string \<Rightarrow> proxy_result" where
  "rate_limited service =
     \<lparr>status = 429,
      content = json_dumps [(''error'', ''Rate limit exceeded''), (''service'', service)],
      headers = [(''Content-Type'', ''application/json'')],
      success = False\<rparr>"

definition proxy_noaa_weather ::
  "limits \<Rightarrow> requests_get \<Rightarrow> string \<Rightarrow> string \<Rightarrow> real \<Rightarrow> request_cache
     \<Rightarrow> (string + proxy_result) \<times> request_cache" where
  "proxy_noaa_weather L get path client_ip now c =
     (let (ok, c1) = rate_limit_check L now client_ip c
      in if \<not> ok then (Inr (rate_limited ''NOAA''), c1)
         else (make_proxy_request get (''https://nowcoast.noaa.gov/'' @ path) 30, c1))"

definition proxy_aviation_weather ::
  "limits \<Rightarrow> requests_get \<Rightarrow> string \<Rightarrow> string \<Rightarrow> real \<Rightarrow> request_cache
     \<Rightarrow> (string + proxy_result) \<times> request_cache" where
  "proxy_aviation_weather L get path client_ip now c =
     (let (ok, c1) = rate_limit_check L now client_ip c
      in if \<not> ok then (Inr (rate_limited ''AWC''), c1)
         else (make_proxy_request get (''https://aviationweather.gov/'' @ path) 30, c1))"

definition proxy_buoy_data ::
  "limits \<Rightarrow> requests_get \<Rightarrow> string \<Rightarrow> string \<Rightarrow> real \<Rightarrow> request_cache
     \<Rightarrow> (string + proxy_result) \<times> request_cache" where
  "proxy_buoy_data L get path client_ip now c =
     (let (ok, c1) = rate_limit_check L now client_ip c
      in if \<not> ok then (Inr (rate_limited ''BUOY''), c1)
         else (make_proxy_request get (''https://www.ndbc.noaa.gov/'' @ path) 30, c1))"

definition proxy_lightning_data ::
  "limits \<Rightarrow> requests_get \<Rightarrow> string \<Rightarrow> string \<Rightarrow> real \<Rightarrow> request_cache
     \<Rightarrow> (string + proxy_result) \<times> request_cache" where
  "proxy_lightning_data L get path client_ip now c =
     (let (ok, c1) = rate_limit_check L now client_ip c
      in if \<not> ok then (Inr (rate_limited ''LIGHTNING''), c1)
         else (make_proxy_request get
                 (''https://nowcoast.noaa.gov/geoserver/observations/lightning_detection/ows'' @ path)
                 30, c1))"

subsection \<open>Statistics\<close>

record weather_stats =
  active_clients :: int
  total_requests :: int
  cache_size :: int
  rate_limit_window :: real
  rate_limit_max :: int
  timestamp :: string

text \<open>\<open>get_weather_stats()\<close>; \<open>iso_now\<close> is \<open>datetime.now().isoformat()\<close>.\<close>

definition get_weather_stats :: "limits \<Rightarrow> string \<Rightarrow> request_cache \<Rightarrow> weather_stats" where
  "get_weather_stats L iso_now c =
     \<lparr>active_clients = int (length c),
      total_requests = (\<Sum>requests \<leftarrow> map snd c. int (length requests)),
      cache_size = int (length c),
      rate_limit_window = RATE_LIMIT_WINDOW L,
      rate_limit_max = RATE_LIMIT_MAX L,
      timestamp = iso_now\<rparr>"

section \<open>The HTTP routes in front of the callables (anvil-weather-proxy/client_code.py)\<close>

text \<open>\<open>HttpResponse\<close>: status, body and headers, as the caller receives them.\<close>

record http_response =
  http_status :: int
  http_body :: string
  http_headers :: "(string \<times> string) list"

text \<open>\<open>remote_addr or 'unknown'\<close>: \<open>None\<close> and the empty string both give \<open>unknown\<close>.\<close>

definition or_unknown :: "string option \<Rightarrow> string" where
  "or_unknown remote_addr =
     (case remote_addr of None \<Rightarrow> ''unknown'' | Some a \<Rightarrow> if a = [] then ''unknown'' else a)"

text \<open>
  \<open>noaa_proxy_endpoint()\<close>. \<open>query_params\<close> and \<open>remote_addr\<close> are the request's;
  \<open>anvil.server.call('proxy_noaa_weather', path, client_ip)\<close> runs the callable of
  main.py, and an exception it raises reaches the \<open>except\<close> branch.
\<close>

definition noaa_proxy_endpoint ::
  "limits \<Rightarrow> requests_get \<Rightarrow> (string \<times> string) list \<Rightarrow> string option \<Rightarrow> real
     \<Rightarrow> request_cache \<Rightarrow> http_response \<times> request_cache" where
  "noaa_proxy_endpoint L get query_params remote_addr now c =
     (let path = dict_get query_params ''path'' [];
          client_ip = or_unknown remote_addr;
          (r, c1) = proxy_noaa_weather L get path client_ip now c
      in (case r of
            Inr result \<Rightarrow>
              \<lparr>http_status = status result,
               http_body = content result,
               http_headers =
                 [(''Content-Type'', dict_get (headers result) ''Content-Type'' ''application/json''),
                  (''Access-Control-Allow-Origin'', ''*''),
                  (''Access-Control-Allow-Methods'', ''GET, POST, OPTIONS''),
                  (''Access-Control-Allow-Headers'', ''Content-Type, Authorization'')]\<rparr>
          | Inl e \<Rightarrow>
              \<lparr>http_status = 500,
               http_body = json_dumps [(''error'', e), (''service'', ''NOAA'')],
               http_headers = [(''Content-Type'', ''application/json'')]\<rparr>,
          c1))"

section \<open>The HTTP endpoints that call upstream themselves\<close>

text \<open>
  In server_code_fixed.py and server_code_correct.py every endpoint receives the query
  parameters as \<open>kwargs\<close> and calls \<open>anvil.http.request(url, method="GET", timeout=60)\<close>,
  which either returns the body or raises; \<open>except Exception as e\<close> answers 500 with
  \<open>str(e)\<close>. An endpoint's result is its response and the list of URLs it requested.
\<close>

datatype fetch = Returned string | Raised string

type_synonym http_request = "string \<Rightarrow> fetch"

text \<open>The loop over \<open>kwargs.items()\<close> that skips the key \<open>path\<close>.\<close>

definition query_pairs :: "(string \<times> string) list \<Rightarrow> string list" where
  "query_pairs kwargs = [key @ ''='' @ value. (key, value) \<leftarrow> kwargs, key \<noteq> ''path'']"

text \<open>\<open>if query_params: request_url += ('&' if '?' in request_url else '?') + '&'.join(query_params)\<close>\<close>

definition add_query :: "string \<Rightarrow> string list \<Rightarrow> string" where
  "add_query request_url query_params =
     (if query_params \<noteq> []
      then request_url @ (if CHR ''?'' \<in> set request_url then ''&'' else ''?'')
             @ join_str ''&'' query_params
      else request_url)"

text \<open>The content type of the NOAA endpoint, from the URL it requested.\<close>

definition noaa_content_type :: "string \<Rightarrow> string" where
  "noaa_content_type request_url =
     (if contains ''wms'' (lower request_url) \<or> contains ''getmap'' (lower request_url)
      then ''image/png''
      else if contains ''xml'' (lower request_url) \<or> contains ''capabilities'' (lower request_url)
      then ''application/xml''
      else ''application/json'')"

text \<open>The content type of the lightning endpoint.\<close>

definition lightning_content_type :: "string \<Rightarrow> string" where
  "lightning_content_type request_url =
     (if contains ''getmap'' (lower request_url) then ''image/png'' else ''application/xml'')"

definition missing_path :: http_response where
  "missing_path = \<lparr>http_status = 400, http_body = ''Missing 'path' parameter'', http_headers = []\<rparr>"

definition endpoint_error :: "string \<Rightarrow> http_response" where
  "endpoint_error e = \<lparr>http_status = 500, http_body = e, http_headers = []\<rparr>"

definition lightning_base_url :: string where
  "lightning_base_url = ''https://nowcoast.noaa.gov/geoserver/observations/lightning_detection/ows''"

subsection \<open>server_code_fixed.py\<close>

definition fixed_headers :: "string \<Rightarrow> (string \<times> string) list" where
  "fixed_headers content_type =
     [(''Content-Type'', content_type),
      (''Access-Control-Allow-Origin'', ''*''),
      (''Access-Control-Allow-Methods'', ''GET, POST, OPTIONS''),
      (''Access-Control-Allow-Headers'', ''Content-Type, Authorization, X-Requested-With'')]"

definition fixed_proxy_noaa_weather ::
  "http_request \<Rightarrow> (string \<times> string) list \<Rightarrow> http_response \<times> string list" where
  "fixed_proxy_noaa_weather request kwargs =
     (let service_path = dict_get kwargs ''path'' []
      in if service_path = [] then (missing_path, [])
         else (let base_url = ''https://nowcoast.noaa.gov'';
                   service_path = (if \<not> startswith service_path ''/''
                                   then ''/'' @ service_path else service_path);
                   request_url = add_query (base_url @ service_path) (query_pairs kwargs)
               in (case request request_url of
                     Returned response \<Rightarrow>
                       (\<lparr>http_status = 200, http_body = response,
                         http_headers = fixed_headers (noaa_content_type request_url)\<rparr>,
                        [request_url])
                   | Raised e \<Rightarrow> (endpoint_error e, [request_url]))))"

definition fixed_proxy_aviation_weather ::
  "http_request \<Rightarrow> (string \<times> string) list \<Rightarrow> http_response \<times> string list" where
  "fixed_proxy_aviation_weather request kwargs =
     (let service_path = dict_get kwargs ''path'' []
      in if service_path = [] then (missing_path, [])
         else (let base_url = ''https://aviationweather.gov'';
                   service_path = (if \<not> startswith service_path ''/''
                                   then ''/'' @ service_path else service_path);
                   request_url = add_query (base_url @ service_path) (query_pairs kwargs)
               in (case request request_url of
                     Returned response \<Rightarrow>
                       (\<lparr>http_status = 200, http_body = response,
                         http_headers = fixed_headers ''application/json''\<rparr>,
                        [request_url])
                   | Raised e \<Rightarrow> (endpoint_error e, [request_url]))))"

text \<open>The buoy endpoint of this file builds no query string.\<close>

definition fixed_proxy_buoy_weather ::
  "http_request \<Rightarrow> (string \<times> string) list \<Rightarrow> http_response \<times> string list" where
  "fixed_proxy_buoy_weather request kwargs =
     (let service_path = dict_get kwargs ''path'' []
      in if service_path = [] then (missing_path, [])
         else (let base_url = ''https://www.ndbc.noaa.gov'';
                   service_path = (if \<not> startswith service_path ''/''
                                   then ''/'' @ service_path else service_path);
                   request_url = base_url @ service_path
               in (case request request_url of
                     Returned response \<Rightarrow>
                       (\<lparr>http_status = 200, http_body = response,
                         http_headers = fixed_headers ''text/plain''\<rparr>,
                        [request_url])
                   | Raised e \<Rightarrow> (endpoint_error e, [request_url]))))"

text \<open>
  The lightning endpoint of this file reads no \<open>path\<close>: its loop appends every item
  of \<open>kwargs\<close>, and the separator is always \<open>?\<close>.
\<close>

definition fixed_proxy_lightning_weather ::
  "http_request \<Rightarrow> (string \<times> string) list \<Rightarrow> http_response \<times> string list" where
  "fixed_proxy_lightning_weather request kwargs =
     (let base_url = lightning_base_url;
          query_params = [key @ ''='' @ value. (key, value) \<leftarrow> kwargs];
          request_url = (if query_params \<noteq> []
                         then base_url @ ''?'' @ join_str ''&'' query_params else base_url)
      in (case request request_url of
            Returned response \<Rightarrow>
              (\<lparr>http_status = 200, http_body = response,
                http_headers = fixed_headers (lightning_content_type request_url)\<rparr>,
               [request_url])
          | Raised e \<Rightarrow> (endpoint_error e, [request_url])))"

subsection \<open>server_code_correct.py\<close>

definition correct_headers :: "string \<Rightarrow> (string \<times> string) list" where
  "correct_headers content_type =
     [(''Content-Type'', content_type),
      (''Access-Control-Allow-Origin'', ''http://localhost:8080''),
      (''Cache-Control'', ''no-cache'')]"

definition correct_proxy_noaa_weather ::
  "http_request \<Rightarrow> (string \<times> string) list \<Rightarrow> http_response \<times> string list" where
  "correct_proxy_noaa_weather request kwargs =
     (let service_path = dict_get kwargs ''path'' []
      in if service_path = [] then (missing_path, [])
         else (let base_url = ''https://nowcoast.noaa.gov'';
                   service_path = (if \<not> startswith service_path ''/''
                                   then ''/'' @ service_path else service_path);
                   request_url = add_query (base_url @ service_path) (query_pairs kwargs)
               in (case request request_url of
                     Returned response \<Rightarrow>
                       (\<lparr>http_status = 200, http_body = response,
                         http_headers = correct_headers (noaa_content_type request_url)\<rparr>,
                        [request_url])
                   | Raised e \<Rightarrow> (endpoint_error e, [request_url]))))"

definition correct_proxy_aviation_weather ::
  "http_request \<Rightarrow> (string \<times> string) list \<Rightarrow> http_response \<times> string list" where
  "correct_proxy_aviation_weather request kwargs =
     (let service_path = dict_get kwargs ''path'' []
      in if service_path = [] then (missing_path, [])
         else (let base_url = ''https://aviationweather.gov'';
                   service_path = (if \<not> startswith service_path ''/''
                                   then ''/'' @ service_path else service_path);
                   request_url = add_query (base_url @ service_path) (query_pairs kwargs)
               in (case request request_url of
                     Returned response \<Rightarrow>
                       (\<lparr>http_status = 200, http_body = response,
                         http_headers = correct_headers ''application/json''\<rparr>,
                        [request_url])
                   | Raised e \<Rightarrow> (endpoint_error e, [request_url]))))"

definition correct_proxy_buoy_weather ::
  "http_request \<Rightarrow> (string \<times> string) list \<Rightarrow> http_response \<times> string list" where
  "correct_proxy_buoy_weather request kwargs =
     (let service_path = dict_get kwargs ''path'' []
      in if service_path = [] then (missing_path, [])
         else (let base_url = ''https://www.ndbc.noaa.gov'';
                   service_path = (if \<not> startswith service_path ''/''
                                   then ''/'' @ service_path else service_path);
                   request_url = add_query (base_url @ service_path) (query_pairs kwargs)
               in (case request request_url of
                     Returned response \<Rightarrow>
                       (\<lparr>http_status = 200, http_body = response,
                         http_headers = correct_headers ''text/plain''\<rparr>,
                        [request_url])
                   | Raised e \<Rightarrow> (endpoint_error e, [request_url]))))"

text \<open>
  The lightning endpoint of this file reads \<open>path\<close>, answers 400 when it is missing or
  empty, and does not use it otherwise; the separator is always \<open>?\<close>.
\<close>

definition correct_proxy_lightning_weather ::
  "http_request \<Rightarrow> (string \<times> string) list \<Rightarrow> http_response \<times> string list" where
  "correct_proxy_lightning_weather request kwargs =
     (let service_path = dict_get kwargs ''path'' []
      in if service_path = [] then (missing_path, [])
         else (let base_url = lightning_base_url;
                   query_params = query_pairs kwargs;
                   request_url = (if query_params \<noteq> []
                                  then base_url @ ''?'' @ join_str ''&'' query_params
                                  else base_url)
               in (case request request_url of
                     Returned response \<Rightarrow>
                       (\<lparr>http_status = 200, http_body = response,
                         http_headers = correct_headers (lightning_content_type request_url)\<rparr>,
                        [request_url])
                   | Raised e \<Rightarrow> (endpoint_error e, [request_url]))))"

section \<open>The specification's words, for comparison\<close>

text \<open>
  The upstream URL as the specification describes it: the origin followed by the
  suffix or remainder path; then every inbound query parameter except \<open>path\<close>, as
  \<open>key=value\<close> joined with \<open>&\<close>, after \<open>?\<close> when the URL has no query string yet and
  after \<open>&\<close> otherwise.
\<close>

definition spec_upstream_url :: "string \<Rightarrow> string \<Rightarrow> (string \<times> string) list \<Rightarrow> string" where
  "spec_upstream_url origin remainder params =
     (let url = origin @ remainder;
          forwarded = map (\<lambda>(k, v). k @ ''='' @ v) (filter (\<lambda>(k, v). k \<noteq> ''path'') params)
      in if forwarded = [] then url
         else url @ (if CHR ''?'' \<in> set url then ''&'' else ''?'') @ join_str ''&'' forwarded)"

text \<open>The remainder path with its leading slash.\<close>

definition with_slash :: "string \<Rightarrow> string" where
  "with_slash p = (if startswith p ''/'' then p else ''/'' @ p)"

text \<open>A response carries the header when its header dictionary has the key.\<close>

definition has_cors :: "http_response \<Rightarrow> bool" where
  "has_cors r = (map_of (http_headers r) ''Access-Control-Allow-Origin'' \<noteq> None)"

section \<open>Facts about the rate limiter\<close>

lemma dict_get_update [simp]:
  "dict_get (AList.update k v d) k' dflt = (if k' = k then v else dict_get d k' dflt)"
  by (simp add: dict_get_def update_conv')

lemma map_of_update_same [simp]: "map_of (AList.update k v d) k = Some v"
  by (simp add: update_conv')

text \<open>The function in one step: prune, compare, then record or not.\<close>

lemma rate_limit_check_eq:
  "rate_limit_check L now k c =
     (let pruned = [t \<leftarrow> dict_get c k []. now - t < RATE_LIMIT_WINDOW L]
      in if RATE_LIMIT_MAX L \<le> int (length pruned)
         then (False, AList.update k pruned c)
         else (True, AList.update k (pruned @ [now]) c))"
  by (simp add: rate_limit_check_def Let_def update_last)

lemma keys_rate_limit_check:
  "fst ` set (snd (rate_limit_check L now k c)) = insert k (fst ` set c)"
  by (simp add: rate_limit_check_eq Let_def dom_update)

lemma distinct_rate_limit_check:
  "distinct (map fst c) \<Longrightarrow> distinct (map fst (snd (rate_limit_check L now k c)))"
  by (simp add: rate_limit_check_eq Let_def distinct_update)

lemma window_rate_limit_check:
  "dict_get (snd (rate_limit_check L now k c)) k [] =
     [t \<leftarrow> dict_get c k []. now - t < RATE_LIMIT_WINDOW L]
       @ (if fst (rate_limit_check L now k c) then [now] else [])"
  by (simp add: rate_limit_check_eq Let_def)

lemma accepted_rate_limit_check:
  "fst (rate_limit_check L now k c) =
     (int (length [t \<leftarrow> dict_get c k []. now - t < RATE_LIMIT_WINDOW L]) < RATE_LIMIT_MAX L)"
  by (auto simp add: rate_limit_check_eq Let_def)

lemma keys_rate_limit_run:
  "fst ` set (snd (rate_limit_run L ts k c)) =
     (if ts = [] then fst ` set c else insert k (fst ` set c))"
proof (induction ts arbitrary: c)
  case Nil
  show ?case by simp
next
  case (Cons t ts)
  have "fst ` set (snd (rate_limit_run L ts k (snd (rate_limit_check L t k c))))
          = insert k (fst ` set c)"
    by (simp add: Cons.IH keys_rate_limit_check)
  then show ?case by (simp add: case_prod_unfold Let_def)
qed

lemma active_clients_length:
  "active_clients (get_weather_stats L stamp c) = int (length c)"
  by (simp add: get_weather_stats_def)

lemma length_keys: "distinct (map fst c) \<Longrightarrow> length c = card (fst ` set c)"
  using distinct_card[of "map fst c"] by simp

text \<open>
  While no recorded time and no coming time falls out of the window, and the quota is
  not reached, every call of a run is accepted and recorded.
\<close>

lemma rate_limit_run_accepts:
  assumes "\<forall>a \<in> set w \<union> set ts. \<forall>b \<in> set ts. b - a < RATE_LIMIT_WINDOW L"
      and "dict_get c k [] = w"
      and "int (length w) + int (length ts) \<le> RATE_LIMIT_MAX L"
  shows "fst (rate_limit_run L ts k c) = replicate (length ts) True
         \<and> dict_get (snd (rate_limit_run L ts k c)) k [] = w @ ts"
  using assms
proof (induction ts arbitrary: c w)
  case Nil
  then show ?case by simp
next
  case (Cons t ts)
  let ?r = "rate_limit_check L t k c"
  have keep: "[a \<leftarrow> dict_get c k []. t - a < RATE_LIMIT_WINDOW L] = w"
    using Cons.prems(1,2) by (simp add: filter_id_conv)
  have ok: "fst ?r"
    using Cons.prems(3) by (simp add: accepted_rate_limit_check keep)
  have win: "dict_get (snd ?r) k [] = w @ [t]"
    by (simp add: window_rate_limit_check keep ok)
  have "\<forall>a \<in> set (w @ [t]) \<union> set ts. \<forall>b \<in> set ts. b - a < RATE_LIMIT_WINDOW L"
    using Cons.prems(1) by auto
  moreover have "int (length (w @ [t])) + int (length ts) \<le> RATE_LIMIT_MAX L"
    using Cons.prems(3) by simp
  ultimately have IH: "fst (rate_limit_run L ts k (snd ?r)) = replicate (length ts) True
         \<and> dict_get (snd (rate_limit_run L ts k (snd ?r))) k [] = (w @ [t]) @ ts"
    using Cons.IH[OF _ win] by blast
  show ?case using ok IH by (simp add: case_prod_unfold)
qed

section \<open>Facts about strings\<close>





lemma rate_limited_body: "contains ''Rate limit exceeded'' (content (rate_limited service))"
  by (simp add: rate_limited_def json_dumps_def json_string_def json_escape_char_def)

section \<open>The rate limiter's contract\<close>



text \<open>
  C9. Every call of \<open>rate_limit_check\<close>, accepted or not, stores the pruned window
  under the client's key (with \<open>now\<close> appended when the call is accepted). So after a
  call the key is in the cache, every timestamp it holds is less than
  \<open>RATE_LIMIT_WINDOW\<close> old, and \<open>get_weather_stats\<close> counts the client in
  \<open>active_clients\<close>: the count is the number of keys, this one included. After any
  non-empty run of calls the client is counted, whatever the calls returned, hence
  also when every one of them was rejected.
\<close>

theorem rate_limit_check_keeps_key:
  assumes "0 < RATE_LIMIT_WINDOW L"
  shows "(let (ok, c') = rate_limit_check L now k c
          in map_of c' k = Some ([t \<leftarrow> dict_get c k []. now - t < RATE_LIMIT_WINDOW L]
                                  @ (if ok then [now] else []))
           \<and> (\<forall>t \<in> set (dict_get c' k []). now - t < RATE_LIMIT_WINDOW L)
           \<and> k \<in> fst ` set c'
           \<and> 1 \<le> active_clients (get_weather_stats L stamp c')
           \<and> (distinct (map fst c) \<longrightarrow>
                active_clients (get_weather_stats L stamp c')
                  = int (card (insert k (fst ` set c)))))
       \<and> (\<forall>ts. ts \<noteq> [] \<longrightarrow>
             k \<in> fst ` set (snd (rate_limit_run L ts k c))
             \<and> 1 \<le> active_clients (get_weather_stats L stamp (snd (rate_limit_run L ts k c))))"
proof -
  let ?r = "rate_limit_check L now k c"
  let ?pruned = "[t \<leftarrow> dict_get c k []. now - t < RATE_LIMIT_WINDOW L]"
  have written: "map_of (snd ?r) k = Some (?pruned @ (if fst ?r then [now] else []))"
    by (simp add: rate_limit_check_eq Let_def)
  have recent: "\<forall>t \<in> set (dict_get (snd ?r) k []). now - t < RATE_LIMIT_WINDOW L"
    using assms by (auto simp add: window_rate_limit_check)
  have present: "k \<in> fst ` set (snd ?r)"
    by (simp add: keys_rate_limit_check)
  have nonempty: "\<And>d. k \<in> fst ` set d \<Longrightarrow> 1 \<le> active_clients (get_weather_stats L stamp d)"
  proof -
    fix d :: request_cache
    assume "k \<in> fst ` set d"
    then have "d \<noteq> []" by auto
    then have "1 \<le> length d" by (cases d) simp_all
    then show "1 \<le> active_clients (get_weather_stats L stamp d)"
      by (simp add: active_clients_length)
  qed
  have counted: "active_clients (get_weather_stats L stamp (snd ?r))
                   = int (card (insert k (fst ` set c)))"
    if "distinct (map fst c)"
  proof -
    have "distinct (map fst (snd ?r))" using that by (rule distinct_rate_limit_check)
    then have "length (snd ?r) = card (fst ` set (snd ?r))" by (rule length_keys)
    then show ?thesis by (simp add: active_clients_length keys_rate_limit_check)
  qed
  have runs: "k \<in> fst ` set (snd (rate_limit_run L ts k c))" if "ts \<noteq> []" for ts
    using that by (simp add: keys_rate_limit_run)
  show ?thesis
    using written recent present nonempty[OF present] counted runs nonempty[OF runs]
    by (simp add: case_prod_unfold)
qed

theorem rate_limit_check_keeps_key_witness:
  "0 < RATE_LIMIT_WINDOW \<lparr>RATE_LIMIT_WINDOW = 900, RATE_LIMIT_MAX = 0\<rparr>
   \<and> fst (rate_limit_check \<lparr>RATE_LIMIT_WINDOW = 900, RATE_LIMIT_MAX = 0\<rparr> 5 ''10.0.0.1'' []) = False
   \<and> map_of (snd (rate_limit_check \<lparr>RATE_LIMIT_WINDOW = 900, RATE_LIMIT_MAX = 0\<rparr> 5 ''10.0.0.1'' []))
        ''10.0.0.1'' = Some []
   \<and> active_clients (get_weather_stats \<lparr>RATE_LIMIT_WINDOW = 900, RATE_LIMIT_MAX = 0\<rparr> ''t''
        (snd (rate_limit_check \<lparr>RATE_LIMIT_WINDOW = 900, RATE_LIMIT_MAX = 0\<rparr> 5 ''10.0.0.1'' []))) = 1
   \<and> fst (rate_limit_run \<lparr>RATE_LIMIT_WINDOW = 900, RATE_LIMIT_MAX = 0\<rparr> [5, 6] ''10.0.0.1'' [])
        = [False, False]
   \<and> ''10.0.0.1'' \<in> fst ` set (snd (rate_limit_run \<lparr>RATE_LIMIT_WINDOW = 900, RATE_LIMIT_MAX = 0\<rparr>
        [5, 6] ''10.0.0.1'' []))"
proof -
  have w: "0 < RATE_LIMIT_WINDOW \<lparr>RATE_LIMIT_WINDOW = 900, RATE_LIMIT_MAX = 0\<rparr>" by simp
  show ?thesis
    using rate_limit_check_keeps_key
            [OF w, where now = 5 and k = "''10.0.0.1''" and c = "[]" and stamp = "''t''"]
    by (simp add: rate_limit_check_eq dict_get_def get_weather_stats_def)
qed

section \<open>Two calls for one client at once\<close>

text \<open>Run without interruption, the three statements are the function.\<close>

lemma steps_seq:
  "step_call L now k (step_call L now k (step_call L now k (At_prune, c)))
     = (Done (fst (rate_limit_check L now k c)), snd (rate_limit_check L now k c))"
  by (simp add: rate_limit_check_def Let_def)

lemma interleave_one_after_the_other:
  "interleave L k now_a now_b [True, True, True, False, False, False] (At_prune, At_prune, c)
     = (Done (fst (rate_limit_check L now_a k c)),
        Done (fst (rate_limit_check L now_b k (snd (rate_limit_check L now_a k c)))),
        snd (rate_limit_check L now_b k (snd (rate_limit_check L now_a k c))))"
  by (simp add: rate_limit_check_def Let_def)


text \<open>
  C8, as the code has it. \<open>rate_limit_check\<close> is a unit only while nothing runs between
  its statements: the three statements of one call, run without interruption, are the
  function, and two calls for the same client whose statements do not interleave are
  two calls one after the other. Then, when exactly one slot remains below
  \<open>RATE_LIMIT_MAX\<close> and nothing leaves the window between the two clock readings, the
  first call is accepted and the second is rejected. The function takes no lock, so
  nothing makes the statements of two calls run apart.
\<close>

theorem rate_limit_check_not_atomic:
  assumes slot: "int (length [t \<leftarrow> dict_get c k []. now_a - t < RATE_LIMIT_WINDOW L]) + 1
                   = RATE_LIMIT_MAX L"
      and keep: "\<forall>t \<in> set (dict_get c k []).
                   now_a - t < RATE_LIMIT_WINDOW L \<longrightarrow> now_b - t < RATE_LIMIT_WINDOW L"
      and near: "now_b - now_a < RATE_LIMIT_WINDOW L"
  shows "step_call L now_a k (step_call L now_a k (step_call L now_a k (At_prune, c)))
           = (Done (fst (rate_limit_check L now_a k c)), snd (rate_limit_check L now_a k c))
       \<and> interleave L k now_a now_b [True, True, True, False, False, False]
             (At_prune, At_prune, c)
           = (Done (fst (rate_limit_check L now_a k c)),
              Done (fst (rate_limit_check L now_b k (snd (rate_limit_check L now_a k c)))),
              snd (rate_limit_check L now_b k (snd (rate_limit_check L now_a k c))))
       \<and> interleave L k now_a now_b [True, True, True, False, False, False]
             (At_prune, At_prune, c)
           = (Done True, Done False,
              AList.update k ([t \<leftarrow> dict_get c k []. now_a - t < RATE_LIMIT_WINDOW L] @ [now_a]) c)"
proof -
  let ?pruned = "[t \<leftarrow> dict_get c k []. now_a - t < RATE_LIMIT_WINDOW L]"
  let ?ra = "rate_limit_check L now_a k c"
  let ?rb = "rate_limit_check L now_b k (snd ?ra)"
  have a_ok: "fst ?ra"
    using slot by (simp add: accepted_rate_limit_check)
  have a_cache: "snd ?ra = AList.update k (?pruned @ [now_a]) c"
    using a_ok slot by (simp add: rate_limit_check_eq Let_def)
  have a_win: "dict_get (snd ?ra) k [] = ?pruned @ [now_a]"
    using a_ok by (simp add: window_rate_limit_check)
  have still: "[t \<leftarrow> ?pruned @ [now_a]. now_b - t < RATE_LIMIT_WINDOW L] = ?pruned @ [now_a]"
  proof (rule filter_True)
    show "\<forall>t \<in> set (?pruned @ [now_a]). now_b - t < RATE_LIMIT_WINDOW L"
      using keep near by auto
  qed
  have b_win: "[t \<leftarrow> dict_get (snd ?ra) k []. now_b - t < RATE_LIMIT_WINDOW L] = ?pruned @ [now_a]"
    using still by (simp only: a_win)
  have "fst ?rb = (int (length (?pruned @ [now_a])) < RATE_LIMIT_MAX L)"
    by (simp only: accepted_rate_limit_check b_win)
  then have b_no: "\<not> fst ?rb"
    using slot by simp
  have "?rb = (if RATE_LIMIT_MAX L \<le> int (length (?pruned @ [now_a]))
               then (False, AList.update k (?pruned @ [now_a]) (snd ?ra))
               else (True, AList.update k ((?pruned @ [now_a]) @ [now_b]) (snd ?ra)))"
    by (simp only: rate_limit_check_eq[of L now_b k "snd ?ra"] b_win Let_def)
  then have "snd ?rb = AList.update k (?pruned @ [now_a]) (snd ?ra)"
    using slot by simp
  then have b_cache: "snd ?rb = AList.update k (?pruned @ [now_a]) c"
    by (simp only: a_cache update_last)
  show ?thesis
    using steps_seq[of L now_a k c] interleave_one_after_the_other[of L k now_a now_b c]
      a_ok b_no b_cache
    by simp
qed

theorem rate_limit_check_not_atomic_witness:
  "int (length [t \<leftarrow> dict_get ([]::request_cache) ''10.0.0.1'' [].
          10 - t < RATE_LIMIT_WINDOW \<lparr>RATE_LIMIT_WINDOW = 900, RATE_LIMIT_MAX = 1\<rparr>]) + 1
     = RATE_LIMIT_MAX \<lparr>RATE_LIMIT_WINDOW = 900, RATE_LIMIT_MAX = 1\<rparr>
   \<and> (11::real) - 10 < RATE_LIMIT_WINDOW \<lparr>RATE_LIMIT_WINDOW = 900, RATE_LIMIT_MAX = 1\<rparr>
   \<and> interleave \<lparr>RATE_LIMIT_WINDOW = 900, RATE_LIMIT_MAX = 1\<rparr> ''10.0.0.1'' 10 11
        [True, True, True, False, False, False] (At_prune, At_prune, [])
     = (Done True, Done False, [(''10.0.0.1'', [10])])"
proof -
  have slot: "int (length [t \<leftarrow> dict_get ([]::request_cache) ''10.0.0.1'' [].
          10 - t < RATE_LIMIT_WINDOW \<lparr>RATE_LIMIT_WINDOW = 900, RATE_LIMIT_MAX = 1\<rparr>]) + 1
     = RATE_LIMIT_MAX \<lparr>RATE_LIMIT_WINDOW = 900, RATE_LIMIT_MAX = 1\<rparr>"
    by (simp add: dict_get_def)
  have keep: "\<forall>t \<in> set (dict_get ([]::request_cache) ''10.0.0.1'' []).
      10 - t < RATE_LIMIT_WINDOW \<lparr>RATE_LIMIT_WINDOW = 900, RATE_LIMIT_MAX = 1\<rparr>
      \<longrightarrow> 11 - t < RATE_LIMIT_WINDOW \<lparr>RATE_LIMIT_WINDOW = 900, RATE_LIMIT_MAX = 1\<rparr>"
    by (simp add: dict_get_def)
  have near: "(11::real) - 10 < RATE_LIMIT_WINDOW \<lparr>RATE_LIMIT_WINDOW = 900, RATE_LIMIT_MAX = 1\<rparr>"
    by simp
  have run: "interleave \<lparr>RATE_LIMIT_WINDOW = 900, RATE_LIMIT_MAX = 1\<rparr> ''10.0.0.1'' 10 11
        [True, True, True, False, False, False] (At_prune, At_prune, [])
     = (Done True, Done False,
        AList.update ''10.0.0.1''
          ([t \<leftarrow> dict_get ([]::request_cache) ''10.0.0.1'' [].
              10 - t < RATE_LIMIT_WINDOW \<lparr>RATE_LIMIT_WINDOW = 900, RATE_LIMIT_MAX = 1\<rparr>] @ [10])
          [])"
    using rate_limit_check_not_atomic[OF slot keep near, THEN conjunct2] by (rule conjunct2)
  have cache: "AList.update ''10.0.0.1''
          ([t \<leftarrow> dict_get ([]::request_cache) ''10.0.0.1'' [].
              10 - t < RATE_LIMIT_WINDOW \<lparr>RATE_LIMIT_WINDOW = 900, RATE_LIMIT_MAX = 1\<rparr>] @ [10])
          [] = [(''10.0.0.1'', [10])]"
    by (simp add: dict_get_def)
  show ?thesis
    by (intro conjI slot near) (simp only: run cache)
qed


text \<open>
  The claim as written (at most one of two racing calls is accepted) fails when the
  statements interleave. With limit 1 and an empty cache, both calls prune and compare
  before either appends: both see an empty window, both are accepted, and the window
  ends with two entries.
\<close>

theorem interleaved_calls_both_accepted:
  "interleave \<lparr>RATE_LIMIT_WINDOW = 900, RATE_LIMIT_MAX = 1\<rparr> ''10.0.0.1'' 10 11
        [True, True, False, False, False, True] (At_prune, At_prune, [])
     = (Done True, Done True, [(''10.0.0.1'', [11, 10])])"
  by (simp add: dict_get_def)

section \<open>The quota inside one window\<close>

lemma proxy_rejects:
  "\<not> fst (rate_limit_check L now k c) \<Longrightarrow>
     fst (proxy_noaa_weather L get path k now c) = Inr (rate_limited ''NOAA'')
   \<and> fst (proxy_aviation_weather L get path k now c) = Inr (rate_limited ''AWC'')
   \<and> fst (proxy_buoy_data L get path k now c) = Inr (rate_limited ''BUOY'')
   \<and> fst (proxy_lightning_data L get path k now c) = Inr (rate_limited ''LIGHTNING'')"
  by (simp add: proxy_noaa_weather_def proxy_aviation_weather_def proxy_buoy_data_def
        proxy_lightning_data_def case_prod_unfold)

lemma proxy_accepts:
  "fst (rate_limit_check L now k c) \<Longrightarrow>
     fst (proxy_noaa_weather L get path k now c)
       = make_proxy_request get (''https://nowcoast.noaa.gov/'' @ path) 30"
  by (simp add: proxy_noaa_weather_def case_prod_unfold)

lemma proxy_cache:
  "snd (proxy_noaa_weather L get path k now c) = snd (rate_limit_check L now k c)"
  by (simp add: proxy_noaa_weather_def case_prod_unfold Let_def)

text \<open>After a run inside one window from a client without live history, the window is the run.\<close>

lemma rate_limit_run_window:
  assumes stale: "\<forall>t0 \<in> set (dict_get c k []). \<forall>t \<in> set (ts @ [t']). \<not> t - t0 < RATE_LIMIT_WINDOW L"
      and within: "\<forall>a \<in> set (ts @ [t']). \<forall>b \<in> set (ts @ [t']). b - a < RATE_LIMIT_WINDOW L"
      and quota: "int (length ts) \<le> RATE_LIMIT_MAX L"
  shows "fst (rate_limit_run L ts k c) = replicate (length ts) True
       \<and> [t \<leftarrow> dict_get (snd (rate_limit_run L ts k c)) k []. t' - t < RATE_LIMIT_WINDOW L] = ts"
proof (cases ts)
  case Nil
  have "[t \<leftarrow> dict_get c k []. t' - t < RATE_LIMIT_WINDOW L] = []"
    using stale by (simp add: filter_empty_conv)
  with Nil show ?thesis by simp
next
  case (Cons t1 rest)
  let ?r = "rate_limit_check L t1 k c"
  have none: "[t \<leftarrow> dict_get c k []. t1 - t < RATE_LIMIT_WINDOW L] = []"
    using stale Cons by (simp add: filter_empty_conv)
  have ok: "fst ?r"
    using quota Cons by (simp add: accepted_rate_limit_check none)
  have win: "dict_get (snd ?r) k [] = [t1]"
    by (simp add: window_rate_limit_check none ok)
  have "\<forall>a \<in> set [t1] \<union> set rest. \<forall>b \<in> set rest. b - a < RATE_LIMIT_WINDOW L"
    using within Cons by simp
  moreover have "int (length [t1]) + int (length rest) \<le> RATE_LIMIT_MAX L"
    using quota Cons by simp
  ultimately have run: "fst (rate_limit_run L rest k (snd ?r)) = replicate (length rest) True
       \<and> dict_get (snd (rate_limit_run L rest k (snd ?r))) k [] = [t1] @ rest"
    using rate_limit_run_accepts[OF _ win] by blast
  have "[t \<leftarrow> ts. t' - t < RATE_LIMIT_WINDOW L] = ts"
    using within by (simp add: filter_id_conv)
  with run ok Cons show ?thesis by (simp add: case_prod_unfold)
qed

text \<open>
  C3, as the code has it. Take a client whose recorded times, if any, have all left the
  window, and a run of \<open>N\<close> requests \<open>ts\<close> followed by one more at \<open>t'\<close>, all inside one
  window (any two of these times are less than \<open>RATE_LIMIT_WINDOW\<close> apart). If
  \<open>N \<le> RATE_LIMIT_MAX\<close>, every request of the run is accepted. The next request is
  rejected exactly when the run filled the quota: for \<open>N = RATE_LIMIT_MAX\<close> the callable
  answers with status 429 and a body that contains \<open>Rate limit exceeded\<close>; for
  \<open>N < RATE_LIMIT_MAX\<close> it is accepted too and forwarded upstream.
\<close>

theorem rate_limit_quota_in_window:
  assumes stale: "\<forall>t0 \<in> set (dict_get c k []). \<forall>t \<in> set (ts @ [t']). \<not> t - t0 < RATE_LIMIT_WINDOW L"
      and within: "\<forall>a \<in> set (ts @ [t']). \<forall>b \<in> set (ts @ [t']). b - a < RATE_LIMIT_WINDOW L"
      and quota: "int (length ts) \<le> RATE_LIMIT_MAX L"
  shows "fst (rate_limit_run L ts k c) = replicate (length ts) True
       \<and> (int (length ts) = RATE_LIMIT_MAX L \<longrightarrow>
            fst (proxy_noaa_weather L get path k t' (snd (rate_limit_run L ts k c)))
              = Inr (rate_limited ''NOAA'')
          \<and> status (rate_limited ''NOAA'') = 429
          \<and> contains ''Rate limit exceeded'' (content (rate_limited ''NOAA'')))
       \<and> (int (length ts) < RATE_LIMIT_MAX L \<longrightarrow>
            fst (proxy_noaa_weather L get path k t' (snd (rate_limit_run L ts k c)))
              = make_proxy_request get (''https://nowcoast.noaa.gov/'' @ path) 30)"
proof -
  let ?c1 = "snd (rate_limit_run L ts k c)"
  from rate_limit_run_window[OF stale within quota]
  have all: "fst (rate_limit_run L ts k c) = replicate (length ts) True"
    and win: "[t \<leftarrow> dict_get ?c1 k []. t' - t < RATE_LIMIT_WINDOW L] = ts"
    by simp_all
  have next_call: "fst (rate_limit_check L t' k ?c1) = (int (length ts) < RATE_LIMIT_MAX L)"
    by (simp add: accepted_rate_limit_check win)
  have full: "fst (proxy_noaa_weather L get path k t' ?c1) = Inr (rate_limited ''NOAA'')"
    if "int (length ts) = RATE_LIMIT_MAX L"
    using that next_call proxy_rejects[of L t' k ?c1 get path] by simp
  have room: "fst (proxy_noaa_weather L get path k t' ?c1)
                = make_proxy_request get (''https://nowcoast.noaa.gov/'' @ path) 30"
    if "int (length ts) < RATE_LIMIT_MAX L"
    using that next_call proxy_accepts[of L t' k ?c1 get path] by simp
  have code: "status (rate_limited ''NOAA'') = 429"
    by (simp add: rate_limited_def)
  show ?thesis
    using all full room code rate_limited_body[of "''NOAA''"] by blast
qed

theorem rate_limit_quota_in_window_witness:
  "int (length (replicate 1000 (0::real))) \<le> RATE_LIMIT_MAX module_limits
   \<and> int (length (replicate 1000 (0::real))) = RATE_LIMIT_MAX module_limits
   \<and> fst (rate_limit_run module_limits (replicate 1000 0) ''10.0.0.1'' [])
       = replicate 1000 True
   \<and> fst (proxy_noaa_weather module_limits (\<lambda>url hs t. Timeout) ''x'' ''10.0.0.1'' 899
            (snd (rate_limit_run module_limits (replicate 1000 0) ''10.0.0.1'' [])))
       = Inr (rate_limited ''NOAA'')
   \<and> status (rate_limited ''NOAA'') = 429"
proof -
  have stale: "\<forall>t0 \<in> set (dict_get ([]::request_cache) ''10.0.0.1'' []).
                 \<forall>t \<in> set (replicate 1000 0 @ [899]). \<not> t - t0 < RATE_LIMIT_WINDOW module_limits"
    by (simp add: dict_get_def)
  have within: "\<forall>a \<in> set (replicate 1000 0 @ [899::real]).
                  \<forall>b \<in> set (replicate 1000 0 @ [899]). b - a < RATE_LIMIT_WINDOW module_limits"
    by (simp add: module_limits_def)
  have quota: "int (length (replicate 1000 (0::real))) \<le> RATE_LIMIT_MAX module_limits"
    by (simp add: module_limits_def)
  show ?thesis
    using rate_limit_quota_in_window[OF stale within quota, of "\<lambda>url hs t. Timeout" "''x''"]
    by (simp add: module_limits_def)
qed

text \<open>
  The claim as written (a run of any \<open>N \<le> RATE_LIMIT_MAX\<close> requests, then a
  rejection) fails for a short run: with the module's limits, a second request one
  second after the first is accepted and answered from upstream.
\<close>

theorem request_after_short_run_accepted:
  "int (length [0::real]) \<le> RATE_LIMIT_MAX module_limits
   \<and> fst (rate_limit_run module_limits [0] ''10.0.0.1'' []) = [True]
   \<and> 1 - 0 < RATE_LIMIT_WINDOW module_limits
   \<and> fst (proxy_noaa_weather module_limits (\<lambda>url hs t. Response 200 ''ok'' []) ''x'' ''10.0.0.1'' 1
            (snd (rate_limit_run module_limits [0] ''10.0.0.1'' [])))
       = Inr \<lparr>status = 200, content = ''ok'', headers = [], success = True\<rparr>"
  by (simp add: module_limits_def rate_limit_check_eq proxy_noaa_weather_def
        make_proxy_request_def dict_get_def)

section \<open>The outbound call's outcome\<close>





section \<open>Facts about the HTTP endpoints\<close>

lemma has_cors_simps:
  "\<not> has_cors missing_path" "\<not> has_cors (endpoint_error e)"
  "has_cors \<lparr>http_status = s, http_body = b, http_headers = fixed_headers ct\<rparr>"
  "has_cors \<lparr>http_status = s, http_body = b, http_headers = correct_headers ct\<rparr>"
  by (simp_all add: has_cors_def missing_path_def endpoint_error_def fixed_headers_def
        correct_headers_def)

lemma status_simps:
  "http_status missing_path = 400" "http_status (endpoint_error e) = 500"
  by (simp_all add: missing_path_def endpoint_error_def)

lemma fixed_noaa_cors:
  "has_cors (fst (fixed_proxy_noaa_weather request kwargs))
     = (http_status (fst (fixed_proxy_noaa_weather request kwargs)) = 200)"
  by (simp add: fixed_proxy_noaa_weather_def Let_def has_cors_simps status_simps split: fetch.split)


lemma fixed_aviation_cors:
  "has_cors (fst (fixed_proxy_aviation_weather request kwargs))
     = (http_status (fst (fixed_proxy_aviation_weather request kwargs)) = 200)"
  by (simp add: fixed_proxy_aviation_weather_def Let_def has_cors_simps status_simps split: fetch.split)


lemma fixed_buoy_cors:
  "has_cors (fst (fixed_proxy_buoy_weather request kwargs))
     = (http_status (fst (fixed_proxy_buoy_weather request kwargs)) = 200)"
  by (simp add: fixed_proxy_buoy_weather_def Let_def has_cors_simps status_simps split: fetch.split)


lemma fixed_lightning_cors:
  "has_cors (fst (fixed_proxy_lightning_weather request kwargs))
     = (http_status (fst (fixed_proxy_lightning_weather request kwargs)) = 200)"
  by (simp add: fixed_proxy_lightning_weather_def Let_def has_cors_simps status_simps split: fetch.split)


lemma correct_noaa_cors:
  "has_cors (fst (correct_proxy_noaa_weather request kwargs))
     = (http_status (fst (correct_proxy_noaa_weather request kwargs)) = 200)"
  by (simp add: correct_proxy_noaa_weather_def Let_def has_cors_simps status_simps split: fetch.split)

lemma correct_noaa_status:
  "http_status (fst (correct_proxy_noaa_weather request kwargs)) = 200
   \<or> http_status (fst (correct_proxy_noaa_weather request kwargs)) = 400
   \<or> http_status (fst (correct_proxy_noaa_weather request kwargs)) = 500"
  by (simp add: correct_proxy_noaa_weather_def Let_def status_simps split: fetch.split)

lemma correct_aviation_cors:
  "has_cors (fst (correct_proxy_aviation_weather request kwargs))
     = (http_status (fst (correct_proxy_aviation_weather request kwargs)) = 200)"
  by (simp add: correct_proxy_aviation_weather_def Let_def has_cors_simps status_simps split: fetch.split)

lemma correct_aviation_status:
  "http_status (fst (correct_proxy_aviation_weather request kwargs)) = 200
   \<or> http_status (fst (correct_proxy_aviation_weather request kwargs)) = 400
   \<or> http_status (fst (correct_proxy_aviation_weather request kwargs)) = 500"
  by (simp add: correct_proxy_aviation_weather_def Let_def status_simps split: fetch.split)

lemma correct_buoy_cors:
  "has_cors (fst (correct_proxy_buoy_weather request kwargs))
     = (http_status (fst (correct_proxy_buoy_weather request kwargs)) = 200)"
  by (simp add: correct_proxy_buoy_weather_def Let_def has_cors_simps status_simps split: fetch.split)

lemma correct_buoy_status:
  "http_status (fst (correct_proxy_buoy_weather request kwargs)) = 200
   \<or> http_status (fst (correct_proxy_buoy_weather request kwargs)) = 400
   \<or> http_status (fst (correct_proxy_buoy_weather request kwargs)) = 500"
  by (simp add: correct_proxy_buoy_weather_def Let_def status_simps split: fetch.split)

lemma correct_lightning_cors:
  "has_cors (fst (correct_proxy_lightning_weather request kwargs))
     = (http_status (fst (correct_proxy_lightning_weather request kwargs)) = 200)"
  by (simp add: correct_proxy_lightning_weather_def Let_def has_cors_simps status_simps split: fetch.split)

lemma correct_lightning_status:
  "http_status (fst (correct_proxy_lightning_weather request kwargs)) = 200
   \<or> http_status (fst (correct_proxy_lightning_weather request kwargs)) = 400
   \<or> http_status (fst (correct_proxy_lightning_weather request kwargs)) = 500"
  by (simp add: correct_proxy_lightning_weather_def Let_def status_simps split: fetch.split)

lemma noaa_route_branches:
  fixes L get qp addr now c
  defines "ip \<equiv> or_unknown addr"
      and "url \<equiv> ''https://nowcoast.noaa.gov/'' @ dict_get qp ''path'' []"
      and "r \<equiv> fst (noaa_proxy_endpoint L get qp addr now c)"
  shows "(\<not> fst (rate_limit_check L now ip c) \<longrightarrow> http_status r = 429 \<and> has_cors r)"
    and "(fst (rate_limit_check L now ip c) \<and> get url proxy_headers 30 = Timeout
            \<longrightarrow> http_status r = 408 \<and> has_cors r)"
    and "(\<forall>e. fst (rate_limit_check L now ip c) \<and> get url proxy_headers 30 = RequestException e
            \<longrightarrow> http_status r = 500 \<and> has_cors r)"
    and "(\<forall>code text hs. fst (rate_limit_check L now ip c)
              \<and> get url proxy_headers 30 = Response code text hs
            \<longrightarrow> http_status r = code \<and> http_body r = text \<and> has_cors r)"
    and "(\<forall>e. fst (rate_limit_check L now ip c) \<and> get url proxy_headers 30 = OtherError e
            \<longrightarrow> http_status r = 500 \<and> \<not> has_cors r)"
  unfolding ip_def url_def r_def
  by (simp_all add: noaa_proxy_endpoint_def proxy_noaa_weather_def make_proxy_request_def
        rate_limited_def has_cors_def Let_def case_prod_unfold)

lemma query_pairs_filter:
  "query_pairs kwargs = map (\<lambda>(k, v). k @ ''='' @ v) (filter (\<lambda>(k, v). k \<noteq> ''path'') kwargs)"
  by (induction kwargs) (auto simp add: query_pairs_def)

lemma all_pairs_map:
  "[key @ ''='' @ value. (key, value) \<leftarrow> kwargs] = map (\<lambda>(k, v). k @ ''='' @ v) kwargs"
  by (induction kwargs) auto

lemma spec_upstream_url_eq:
  "spec_upstream_url origin remainder params = add_query (origin @ remainder) (query_pairs params)"
  by (simp add: spec_upstream_url_def add_query_def query_pairs_filter Let_def)

lemma no_query_in_lightning_base: "CHR ''?'' \<notin> set lightning_base_url"
  by (simp add: lightning_base_url_def)

lemma query_pairs_update_path:
  "query_pairs (AList.update ''path'' v kwargs) = query_pairs kwargs"
  by (induction kwargs) (auto simp add: query_pairs_def)

lemma query_pairs_no_path:
  "map_of kwargs ''path'' = None \<Longrightarrow> query_pairs kwargs = map (\<lambda>(k, v). k @ ''='' @ v) kwargs"
  by (induction kwargs) (auto simp add: query_pairs_def split: if_splits)

text \<open>What each endpoint requests.\<close>

lemma fixed_noaa_url:
  "dict_get kwargs ''path'' [] \<noteq> [] \<Longrightarrow>
     snd (fixed_proxy_noaa_weather request kwargs)
       = [spec_upstream_url ''https://nowcoast.noaa.gov'' (with_slash (dict_get kwargs ''path'' [])) kwargs]"
  by (simp add: fixed_proxy_noaa_weather_def spec_upstream_url_eq with_slash_def Let_def
        split: fetch.split)

lemma fixed_aviation_url:
  "dict_get kwargs ''path'' [] \<noteq> [] \<Longrightarrow>
     snd (fixed_proxy_aviation_weather request kwargs)
       = [spec_upstream_url ''https://aviationweather.gov'' (with_slash (dict_get kwargs ''path'' [])) kwargs]"
  by (simp add: fixed_proxy_aviation_weather_def spec_upstream_url_eq with_slash_def Let_def
        split: fetch.split)

lemma fixed_buoy_url:
  "dict_get kwargs ''path'' [] \<noteq> [] \<Longrightarrow>
     snd (fixed_proxy_buoy_weather request kwargs)
       = [''https://www.ndbc.noaa.gov'' @ with_slash (dict_get kwargs ''path'' [])]"
  by (simp add: fixed_proxy_buoy_weather_def with_slash_def Let_def split: fetch.split)

lemma fixed_lightning_url:
  "snd (fixed_proxy_lightning_weather request kwargs)
     = [if kwargs = [] then lightning_base_url
        else lightning_base_url @ ''?'' @ join_str ''&'' (map (\<lambda>(k, v). k @ ''='' @ v) kwargs)]"
  by (simp add: fixed_proxy_lightning_weather_def all_pairs_map Let_def split: fetch.split)

lemma correct_noaa_url:
  "dict_get kwargs ''path'' [] \<noteq> [] \<Longrightarrow>
     snd (correct_proxy_noaa_weather request kwargs)
       = [spec_upstream_url ''https://nowcoast.noaa.gov'' (with_slash (dict_get kwargs ''path'' [])) kwargs]"
  by (simp add: correct_proxy_noaa_weather_def spec_upstream_url_eq with_slash_def Let_def
        split: fetch.split)

lemma correct_aviation_url:
  "dict_get kwargs ''path'' [] \<noteq> [] \<Longrightarrow>
     snd (correct_proxy_aviation_weather request kwargs)
       = [spec_upstream_url ''https://aviationweather.gov'' (with_slash (dict_get kwargs ''path'' [])) kwargs]"
  by (simp add: correct_proxy_aviation_weather_def spec_upstream_url_eq with_slash_def Let_def
        split: fetch.split)

lemma correct_buoy_url:
  "dict_get kwargs ''path'' [] \<noteq> [] \<Longrightarrow>
     snd (correct_proxy_buoy_weather request kwargs)
       = [spec_upstream_url ''https://www.ndbc.noaa.gov'' (with_slash (dict_get kwargs ''path'' [])) kwargs]"
  by (simp add: correct_proxy_buoy_weather_def spec_upstream_url_eq with_slash_def Let_def
        split: fetch.split)

lemma correct_lightning_url:
  "dict_get kwargs ''path'' [] \<noteq> [] \<Longrightarrow>
     snd (correct_proxy_lightning_weather request kwargs)
       = [spec_upstream_url lightning_base_url [] kwargs]"
  by (simp add: correct_proxy_lightning_weather_def spec_upstream_url_eq add_query_def
        no_query_in_lightning_base Let_def split: fetch.split)

lemma fixed_lightning_url_no_path:
  "map_of kwargs ''path'' = None \<Longrightarrow>
     snd (fixed_proxy_lightning_weather request kwargs)
       = [spec_upstream_url lightning_base_url [] kwargs]"
  by (simp add: fixed_lightning_url spec_upstream_url_eq add_query_def query_pairs_no_path
        no_query_in_lightning_base)


lemma fixed_aviation_outcome:
  "snd (fixed_proxy_aviation_weather request kwargs) = [url] \<Longrightarrow>
     (\<forall>body. request url = Returned body \<longrightarrow>
        http_status (fst (fixed_proxy_aviation_weather request kwargs)) = 200
        \<and> http_body (fst (fixed_proxy_aviation_weather request kwargs)) = body)
   \<and> (\<forall>e. request url = Raised e \<longrightarrow>
        http_status (fst (fixed_proxy_aviation_weather request kwargs)) = 500
        \<and> http_body (fst (fixed_proxy_aviation_weather request kwargs)) = e)"
  by (auto simp add: fixed_proxy_aviation_weather_def Let_def endpoint_error_def
        split: if_splits fetch.splits)

lemma fixed_buoy_outcome:
  "snd (fixed_proxy_buoy_weather request kwargs) = [url] \<Longrightarrow>
     (\<forall>body. request url = Returned body \<longrightarrow>
        http_status (fst (fixed_proxy_buoy_weather request kwargs)) = 200
        \<and> http_body (fst (fixed_proxy_buoy_weather request kwargs)) = body)
   \<and> (\<forall>e. request url = Raised e \<longrightarrow>
        http_status (fst (fixed_proxy_buoy_weather request kwargs)) = 500
        \<and> http_body (fst (fixed_proxy_buoy_weather request kwargs)) = e)"
  by (auto simp add: fixed_proxy_buoy_weather_def Let_def endpoint_error_def
        split: if_splits fetch.splits)

lemma fixed_lightning_outcome:
  "snd (fixed_proxy_lightning_weather request kwargs) = [url] \<Longrightarrow>
     (\<forall>body. request url = Returned body \<longrightarrow>
        http_status (fst (fixed_proxy_lightning_weather request kwargs)) = 200
        \<and> http_body (fst (fixed_proxy_lightning_weather request kwargs)) = body)
   \<and> (\<forall>e. request url = Raised e \<longrightarrow>
        http_status (fst (fixed_proxy_lightning_weather request kwargs)) = 500
        \<and> http_body (fst (fixed_proxy_lightning_weather request kwargs)) = e)"
  by (auto simp add: fixed_proxy_lightning_weather_def Let_def endpoint_error_def
        split: if_splits fetch.splits)

lemma fixed_lightning_content_type:
  "snd (fixed_proxy_lightning_weather request kwargs) = [url] \<Longrightarrow>
   request url = Returned body \<Longrightarrow>
     fst (fixed_proxy_lightning_weather request kwargs)
       = \<lparr>http_status = 200, http_body = body,
          http_headers = fixed_headers (if contains ''getmap'' (lower url)
                                         then ''image/png'' else ''application/xml'')\<rparr>"
  by (auto simp add: fixed_proxy_lightning_weather_def Let_def lightning_content_type_def
        split: if_splits fetch.splits)

text \<open>The guard on \<open>path\<close> answers before anything is requested.\<close>

lemma correct_lightning_guard:
  "dict_get kwargs ''path'' [] = [] \<Longrightarrow>
     correct_proxy_lightning_weather request kwargs = (missing_path, [])"
  by (simp add: correct_proxy_lightning_weather_def)

lemma empty_path_400:
  assumes "dict_get kwargs ''path'' [] = []"
  shows "fixed_proxy_noaa_weather request kwargs = (missing_path, [])"
    and "fixed_proxy_aviation_weather request kwargs = (missing_path, [])"
    and "fixed_proxy_buoy_weather request kwargs = (missing_path, [])"
    and "correct_proxy_noaa_weather request kwargs = (missing_path, [])"
    and "correct_proxy_aviation_weather request kwargs = (missing_path, [])"
    and "correct_proxy_buoy_weather request kwargs = (missing_path, [])"
  using assms
  by (simp_all add: fixed_proxy_noaa_weather_def fixed_proxy_aviation_weather_def
        fixed_proxy_buoy_weather_def correct_proxy_noaa_weather_def
        correct_proxy_aviation_weather_def correct_proxy_buoy_weather_def)

text \<open>The slash is prepended before anything else reads the path.\<close>

lemma fixed_noaa_slash:
  "p \<noteq> [] \<Longrightarrow> \<not> startswith p ''/'' \<Longrightarrow>
     fixed_proxy_noaa_weather request (AList.update ''path'' p kwargs)
       = fixed_proxy_noaa_weather request (AList.update ''path'' (''/'' @ p) kwargs)"
  by (simp add: fixed_proxy_noaa_weather_def query_pairs_update_path Let_def)

lemma fixed_aviation_slash:
  "p \<noteq> [] \<Longrightarrow> \<not> startswith p ''/'' \<Longrightarrow>
     fixed_proxy_aviation_weather request (AList.update ''path'' p kwargs)
       = fixed_proxy_aviation_weather request (AList.update ''path'' (''/'' @ p) kwargs)"
  by (simp add: fixed_proxy_aviation_weather_def query_pairs_update_path Let_def)

lemma fixed_buoy_slash:
  "p \<noteq> [] \<Longrightarrow> \<not> startswith p ''/'' \<Longrightarrow>
     fixed_proxy_buoy_weather request (AList.update ''path'' p kwargs)
       = fixed_proxy_buoy_weather request (AList.update ''path'' (''/'' @ p) kwargs)"
  by (simp add: fixed_proxy_buoy_weather_def Let_def)

lemma correct_noaa_slash:
  "p \<noteq> [] \<Longrightarrow> \<not> startswith p ''/'' \<Longrightarrow>
     correct_proxy_noaa_weather request (AList.update ''path'' p kwargs)
       = correct_proxy_noaa_weather request (AList.update ''path'' (''/'' @ p) kwargs)"
  by (simp add: correct_proxy_noaa_weather_def query_pairs_update_path Let_def)

lemma correct_aviation_slash:
  "p \<noteq> [] \<Longrightarrow> \<not> startswith p ''/'' \<Longrightarrow>
     correct_proxy_aviation_weather request (AList.update ''path'' p kwargs)
       = correct_proxy_aviation_weather request (AList.update ''path'' (''/'' @ p) kwargs)"
  by (simp add: correct_proxy_aviation_weather_def query_pairs_update_path Let_def)

lemma correct_buoy_slash:
  "p \<noteq> [] \<Longrightarrow> \<not> startswith p ''/'' \<Longrightarrow>
     correct_proxy_buoy_weather request (AList.update ''path'' p kwargs)
       = correct_proxy_buoy_weather request (AList.update ''path'' (''/'' @ p) kwargs)"
  by (simp add: correct_proxy_buoy_weather_def query_pairs_update_path Let_def)

section \<open>The responses the caller receives\<close>

text \<open>
  C1, as the code has it. An HTTP endpoint of server_code_fixed.py or
  server_code_correct.py sets \<open>Access-Control-Allow-Origin\<close> on its success response
  (status 200) and on no other: the 400 for a missing \<open>path\<close> and the 500 of the
  \<open>except\<close> branch are built without headers. The route of client_code.py sets the
  header on every response it builds from the callable's result, that is for a
  rate-limited request (429), a timeout (408), a network error (500) and an upstream
  response (its own status); the 500 of its \<open>except\<close> branch has only a content type.
\<close>

theorem cors_header_by_branch:
  "has_cors (fst (fixed_proxy_noaa_weather request kwargs))
     = (http_status (fst (fixed_proxy_noaa_weather request kwargs)) = 200)
   \<and> has_cors (fst (fixed_proxy_aviation_weather request kwargs))
     = (http_status (fst (fixed_proxy_aviation_weather request kwargs)) = 200)
   \<and> has_cors (fst (fixed_proxy_buoy_weather request kwargs))
     = (http_status (fst (fixed_proxy_buoy_weather request kwargs)) = 200)
   \<and> has_cors (fst (fixed_proxy_lightning_weather request kwargs))
     = (http_status (fst (fixed_proxy_lightning_weather request kwargs)) = 200)
   \<and> has_cors (fst (correct_proxy_noaa_weather request kwargs))
     = (http_status (fst (correct_proxy_noaa_weather request kwargs)) = 200)
   \<and> has_cors (fst (correct_proxy_aviation_weather request kwargs))
     = (http_status (fst (correct_proxy_aviation_weather request kwargs)) = 200)
   \<and> has_cors (fst (correct_proxy_buoy_weather request kwargs))
     = (http_status (fst (correct_proxy_buoy_weather request kwargs)) = 200)
   \<and> has_cors (fst (correct_proxy_lightning_weather request kwargs))
     = (http_status (fst (correct_proxy_lightning_weather request kwargs)) = 200)
   \<and> (let ip = or_unknown addr;
            url = ''https://nowcoast.noaa.gov/'' @ dict_get qp ''path'' [];
            r = fst (noaa_proxy_endpoint L get qp addr now c)
        in (\<not> fst (rate_limit_check L now ip c) \<longrightarrow> http_status r = 429 \<and> has_cors r)
         \<and> (fst (rate_limit_check L now ip c) \<and> get url proxy_headers 30 = Timeout
               \<longrightarrow> http_status r = 408 \<and> has_cors r)
         \<and> (\<forall>e. fst (rate_limit_check L now ip c)
                 \<and> get url proxy_headers 30 = RequestException e
               \<longrightarrow> http_status r = 500 \<and> has_cors r)
         \<and> (\<forall>code text hs. fst (rate_limit_check L now ip c)
                 \<and> get url proxy_headers 30 = Response code text hs
               \<longrightarrow> http_status r = code \<and> has_cors r)
         \<and> (\<forall>e. fst (rate_limit_check L now ip c) \<and> get url proxy_headers 30 = OtherError e
               \<longrightarrow> http_status r = 500 \<and> \<not> has_cors r))"
proof -
  note endpoints = fixed_noaa_cors fixed_aviation_cors fixed_buoy_cors fixed_lightning_cors
    correct_noaa_cors correct_aviation_cors correct_buoy_cors correct_lightning_cors
  have route: "(let ip = or_unknown addr;
            url = ''https://nowcoast.noaa.gov/'' @ dict_get qp ''path'' [];
            r = fst (noaa_proxy_endpoint L get qp addr now c)
        in (\<not> fst (rate_limit_check L now ip c) \<longrightarrow> http_status r = 429 \<and> has_cors r)
         \<and> (fst (rate_limit_check L now ip c) \<and> get url proxy_headers 30 = Timeout
               \<longrightarrow> http_status r = 408 \<and> has_cors r)
         \<and> (\<forall>e. fst (rate_limit_check L now ip c)
                 \<and> get url proxy_headers 30 = RequestException e
               \<longrightarrow> http_status r = 500 \<and> has_cors r)
         \<and> (\<forall>code text hs. fst (rate_limit_check L now ip c)
                 \<and> get url proxy_headers 30 = Response code text hs
               \<longrightarrow> http_status r = code \<and> has_cors r)
         \<and> (\<forall>e. fst (rate_limit_check L now ip c) \<and> get url proxy_headers 30 = OtherError e
               \<longrightarrow> http_status r = 500 \<and> \<not> has_cors r))"
    unfolding Let_def
    using noaa_route_branches[where L = L and addr = addr and c = c and get = "get" and qp = qp
            and now = now] by blast
  show ?thesis
    using route by (simp only: endpoints simp_thms)
qed

theorem cors_header_by_branch_witness:
  "http_status (fst (fixed_proxy_noaa_weather (\<lambda>url. Returned ''{}'') [(''path'', ''/geoserver'')])) = 200
   \<and> has_cors (fst (fixed_proxy_noaa_weather (\<lambda>url. Returned ''{}'') [(''path'', ''/geoserver'')]))
   \<and> \<not> fst (rate_limit_check \<lparr>RATE_LIMIT_WINDOW = 900, RATE_LIMIT_MAX = 0\<rparr> 5 (or_unknown None) [])
   \<and> http_status (fst (noaa_proxy_endpoint \<lparr>RATE_LIMIT_WINDOW = 900, RATE_LIMIT_MAX = 0\<rparr>
        (\<lambda>url hs t. Timeout) [(''path'', ''geoserver'')] None 5 [])) = 429
   \<and> has_cors (fst (noaa_proxy_endpoint \<lparr>RATE_LIMIT_WINDOW = 900, RATE_LIMIT_MAX = 0\<rparr>
        (\<lambda>url hs t. Timeout) [(''path'', ''geoserver'')] None 5 []))
   \<and> fst (rate_limit_check module_limits 5 (or_unknown None) [])
   \<and> http_status (fst (noaa_proxy_endpoint module_limits
        (\<lambda>url hs t. Timeout) [(''path'', ''geoserver'')] None 5 [])) = 408
   \<and> has_cors (fst (noaa_proxy_endpoint module_limits
        (\<lambda>url hs t. Timeout) [(''path'', ''geoserver'')] None 5 []))"
  using cors_header_by_branch
          [where request = "\<lambda>url. Returned ''{}''" and kwargs = "[(''path'', ''/geoserver'')]"
             and L = "\<lparr>RATE_LIMIT_WINDOW = 900, RATE_LIMIT_MAX = 0\<rparr>"
             and get = "\<lambda>url hs t. Timeout" and qp = "[(''path'', ''geoserver'')]"
             and addr = None and now = 5 and c = "[]"]
        cors_header_by_branch
          [where request = "\<lambda>url. Returned ''{}''" and kwargs = "[(''path'', ''/geoserver'')]"
             and L = module_limits
             and get = "\<lambda>url hs t. Timeout" and qp = "[(''path'', ''geoserver'')]"
             and addr = None and now = 5 and c = "[]"]
  by (simp add: Let_def accepted_rate_limit_check module_limits_def dict_get_def
        fixed_proxy_noaa_weather_def add_query_def query_pairs_def)


text \<open>
  The claim as written (the header on every response, errors included) fails on the
  NOAA endpoint of server_code_fixed.py: a request without \<open>path\<close> gets the bare 400,
  and a failed upstream call gets the bare 500.
\<close>

theorem error_responses_without_cors:
  "http_status (fst (fixed_proxy_noaa_weather (\<lambda>url. Returned ''{}'') [(''layers'', ''radar'')])) = 400
   \<and> \<not> has_cors (fst (fixed_proxy_noaa_weather (\<lambda>url. Returned ''{}'') [(''layers'', ''radar'')]))
   \<and> http_status (fst (fixed_proxy_noaa_weather (\<lambda>url. Raised ''connection refused'')
                         [(''path'', ''/geoserver'')])) = 500
   \<and> \<not> has_cors (fst (fixed_proxy_noaa_weather (\<lambda>url. Raised ''connection refused'')
                         [(''path'', ''/geoserver'')]))"
  by (simp add: fixed_proxy_noaa_weather_def dict_get_def has_cors_simps status_simps
        add_query_def query_pairs_def)





section \<open>The upstream URL\<close>

text \<open>
  C6, as the code has it. With a non-empty \<open>path\<close>, the NOAA and aviation endpoints of
  both files and the buoy and lightning endpoints of server_code_correct.py request
  exactly the URL of the specification: origin, then the path with its leading slash
  (the lightning endpoint: its constant URL), then every query parameter except \<open>path\<close>
  as \<open>key=value\<close> joined with \<open>&\<close>, after \<open>?\<close> or, when the URL already has a \<open>?\<close>,
  after \<open>&\<close>. The buoy endpoint of server_code_fixed.py requests origin and path only.
  The lightning endpoint of server_code_fixed.py appends every parameter it receives
  after \<open>?\<close>; that is the specification's URL when the request has no \<open>path\<close> key.
\<close>

theorem upstream_url_by_endpoint:
  "(dict_get kwargs ''path'' [] \<noteq> [] \<longrightarrow>
      snd (fixed_proxy_noaa_weather request kwargs)
        = [spec_upstream_url ''https://nowcoast.noaa.gov''
             (with_slash (dict_get kwargs ''path'' [])) kwargs]
    \<and> snd (fixed_proxy_aviation_weather request kwargs)
        = [spec_upstream_url ''https://aviationweather.gov''
             (with_slash (dict_get kwargs ''path'' [])) kwargs]
    \<and> snd (correct_proxy_noaa_weather request kwargs)
        = [spec_upstream_url ''https://nowcoast.noaa.gov''
             (with_slash (dict_get kwargs ''path'' [])) kwargs]
    \<and> snd (correct_proxy_aviation_weather request kwargs)
        = [spec_upstream_url ''https://aviationweather.gov''
             (with_slash (dict_get kwargs ''path'' [])) kwargs]
    \<and> snd (correct_proxy_buoy_weather request kwargs)
        = [spec_upstream_url ''https://www.ndbc.noaa.gov''
             (with_slash (dict_get kwargs ''path'' [])) kwargs]
    \<and> snd (correct_proxy_lightning_weather request kwargs)
        = [spec_upstream_url lightning_base_url [] kwargs]
    \<and> snd (fixed_proxy_buoy_weather request kwargs)
        = [''https://www.ndbc.noaa.gov'' @ with_slash (dict_get kwargs ''path'' [])])
   \<and> (map_of kwargs ''path'' = None \<longrightarrow>
      snd (fixed_proxy_lightning_weather request kwargs)
        = [spec_upstream_url lightning_base_url [] kwargs])
   \<and> snd (fixed_proxy_lightning_weather request kwargs)
        = [if kwargs = [] then lightning_base_url
           else lightning_base_url @ ''?''
                  @ join_str ''&'' (map (\<lambda>(k, v). k @ ''='' @ v) kwargs)]"
proof -
  have with_path: "snd (fixed_proxy_noaa_weather request kwargs)
        = [spec_upstream_url ''https://nowcoast.noaa.gov''
             (with_slash (dict_get kwargs ''path'' [])) kwargs]
    \<and> snd (fixed_proxy_aviation_weather request kwargs)
        = [spec_upstream_url ''https://aviationweather.gov''
             (with_slash (dict_get kwargs ''path'' [])) kwargs]
    \<and> snd (correct_proxy_noaa_weather request kwargs)
        = [spec_upstream_url ''https://nowcoast.noaa.gov''
             (with_slash (dict_get kwargs ''path'' [])) kwargs]
    \<and> snd (correct_proxy_aviation_weather request kwargs)
        = [spec_upstream_url ''https://aviationweather.gov''
             (with_slash (dict_get kwargs ''path'' [])) kwargs]
    \<and> snd (correct_proxy_buoy_weather request kwargs)
        = [spec_upstream_url ''https://www.ndbc.noaa.gov''
             (with_slash (dict_get kwargs ''path'' [])) kwargs]
    \<and> snd (correct_proxy_lightning_weather request kwargs)
        = [spec_upstream_url lightning_base_url [] kwargs]
    \<and> snd (fixed_proxy_buoy_weather request kwargs)
        = [''https://www.ndbc.noaa.gov'' @ with_slash (dict_get kwargs ''path'' [])]"
    if "dict_get kwargs ''path'' [] \<noteq> []"
    using that
    by (simp only: fixed_noaa_url fixed_aviation_url correct_noaa_url correct_aviation_url
          correct_buoy_url correct_lightning_url fixed_buoy_url simp_thms)
  have no_path: "snd (fixed_proxy_lightning_weather request kwargs)
        = [spec_upstream_url lightning_base_url [] kwargs]"
    if "map_of kwargs ''path'' = None"
    using that by (rule fixed_lightning_url_no_path)
  show ?thesis
    using with_path no_path fixed_lightning_url[of request kwargs] by blast
qed

theorem upstream_url_by_endpoint_witness:
  "dict_get [(''path'', ''api/data/metar''), (''ids'', ''KHOU''), (''format'', ''json'')] ''path'' []
     \<noteq> []
   \<and> snd (fixed_proxy_aviation_weather (\<lambda>url. Returned ''[]'')
        [(''path'', ''api/data/metar''), (''ids'', ''KHOU''), (''format'', ''json'')])
     = [''https://aviationweather.gov/api/data/metar?ids=KHOU&format=json'']
   \<and> snd (fixed_proxy_noaa_weather (\<lambda>url. Returned ''[]'')
        [(''path'', ''api/data/metar''), (''ids'', ''KHOU''), (''format'', ''json'')])
     = [''https://nowcoast.noaa.gov/api/data/metar?ids=KHOU&format=json'']
   \<and> map_of [(''service'', ''WMS''), (''request'', ''GetCapabilities'')] ''path'' = None
   \<and> snd (fixed_proxy_lightning_weather (\<lambda>url. Returned ''<xml/>'')
        [(''service'', ''WMS''), (''request'', ''GetCapabilities'')])
     = [''https://nowcoast.noaa.gov/geoserver/observations/lightning_detection/ows?service=WMS&request=GetCapabilities'']"
  using upstream_url_by_endpoint
          [where request = "\<lambda>url. Returned ''[]''"
             and kwargs = "[(''path'', ''api/data/metar''), (''ids'', ''KHOU''), (''format'', ''json'')]"]
        upstream_url_by_endpoint
          [where request = "\<lambda>url. Returned ''<xml/>''"
             and kwargs = "[(''service'', ''WMS''), (''request'', ''GetCapabilities'')]"]
  by (simp add: dict_get_def spec_upstream_url_def with_slash_def lightning_base_url_def)


text \<open>
  The claim as written (every route, and \<open>path\<close> never forwarded) fails in
  server_code_fixed.py: the buoy endpoint drops the parameter \<open>station\<close>, and the
  lightning endpoint sends \<open>path=ows\<close> upstream.
\<close>

theorem buoy_drops_query_lightning_forwards_path:
  "snd (fixed_proxy_buoy_weather (\<lambda>url. Returned ''ok'')
        [(''path'', ''/station_page.php''), (''station'', ''42001'')])
     = [''https://www.ndbc.noaa.gov/station_page.php'']
   \<and> spec_upstream_url ''https://www.ndbc.noaa.gov'' ''/station_page.php''
        [(''path'', ''/station_page.php''), (''station'', ''42001'')]
     = ''https://www.ndbc.noaa.gov/station_page.php?station=42001''
   \<and> snd (fixed_proxy_lightning_weather (\<lambda>url. Returned ''ok'')
        [(''path'', ''ows''), (''service'', ''WMS'')])
     = [''https://nowcoast.noaa.gov/geoserver/observations/lightning_detection/ows?path=ows&service=WMS'']
   \<and> spec_upstream_url lightning_base_url [] [(''path'', ''ows''), (''service'', ''WMS'')]
     = ''https://nowcoast.noaa.gov/geoserver/observations/lightning_detection/ows?service=WMS''"
  by (simp add: fixed_proxy_buoy_weather_def fixed_proxy_lightning_weather_def dict_get_def
        spec_upstream_url_def lightning_base_url_def Let_def)

section \<open>The lightning endpoint\<close>

text \<open>
  C7, as the code has it. The lightning endpoint of server_code_fixed.py does not ask
  for a \<open>path\<close>: a request with query parameters and no \<open>path\<close> key is never answered
  400; the endpoint requests its constant URL followed by \<open>?\<close> and all the parameters
  as \<open>key=value\<close> joined with \<open>&\<close>, and when the call returns and the lower-cased URL
  does not contain \<open>getmap\<close> it answers 200 with content type \<open>application/xml\<close>.
\<close>

theorem lightning_without_path:
  assumes "kwargs \<noteq> []" and "map_of kwargs ''path'' = None"
  shows "snd (fixed_proxy_lightning_weather request kwargs)
           = [lightning_base_url @ ''?'' @ join_str ''&'' (map (\<lambda>(k, v). k @ ''='' @ v) kwargs)]
       \<and> fst (fixed_proxy_lightning_weather request kwargs) \<noteq> missing_path
       \<and> http_status (fst (fixed_proxy_lightning_weather request kwargs)) \<noteq> 400
       \<and> (\<forall>body. request (lightning_base_url @ ''?''
                       @ join_str ''&'' (map (\<lambda>(k, v). k @ ''='' @ v) kwargs)) = Returned body
              \<and> \<not> contains ''getmap'' (lower (lightning_base_url @ ''?''
                       @ join_str ''&'' (map (\<lambda>(k, v). k @ ''='' @ v) kwargs)))
            \<longrightarrow> fst (fixed_proxy_lightning_weather request kwargs)
                  = \<lparr>http_status = 200, http_body = body,
                     http_headers = fixed_headers ''application/xml''\<rparr>)"
proof -
  let ?url = "lightning_base_url @ ''?'' @ join_str ''&'' (map (\<lambda>(k, v). k @ ''='' @ v) kwargs)"
  have sent: "snd (fixed_proxy_lightning_weather request kwargs) = [?url]"
    using assms(1) by (simp add: fixed_lightning_url)
  have not400: "http_status (fst (fixed_proxy_lightning_weather request kwargs)) \<noteq> 400"
    by (cases "request ?url")
       (use fixed_lightning_outcome[OF sent] in auto)
  then have not_missing: "fst (fixed_proxy_lightning_weather request kwargs) \<noteq> missing_path"
    by (auto simp add: status_simps)
  have xml: "fst (fixed_proxy_lightning_weather request kwargs)
                  = \<lparr>http_status = 200, http_body = body,
                     http_headers = fixed_headers ''application/xml''\<rparr>"
    if "request ?url = Returned body" and "\<not> contains ''getmap'' (lower ?url)" for body
    using fixed_lightning_content_type[OF sent that(1)] that(2) by simp
  show ?thesis
    using sent not400 not_missing xml by blast
qed

theorem lightning_without_path_witness:
  "[(''service'', ''WMS''), (''request'', ''GetCapabilities'')] \<noteq> []
   \<and> map_of [(''service'', ''WMS''), (''request'', ''GetCapabilities'')] ''path'' = None
   \<and> \<not> contains ''getmap'' (lower ''https://nowcoast.noaa.gov/geoserver/observations/lightning_detection/ows?service=WMS&request=GetCapabilities'')
   \<and> fixed_proxy_lightning_weather (\<lambda>url. Returned ''<WMS_Capabilities/>'')
        [(''service'', ''WMS''), (''request'', ''GetCapabilities'')]
     = (\<lparr>http_status = 200, http_body = ''<WMS_Capabilities/>'',
         http_headers = fixed_headers ''application/xml''\<rparr>,
        [''https://nowcoast.noaa.gov/geoserver/observations/lightning_detection/ows?service=WMS&request=GetCapabilities''])"
proof -
  have a: "[(''service'', ''WMS''), (''request'', ''GetCapabilities'')] \<noteq> ([]::(string \<times> string) list)"
    by simp
  have b: "map_of [(''service'', ''WMS''), (''request'', ''GetCapabilities'')] ''path'' = None"
    by simp
  have c: "\<not> contains ''getmap'' (lower ''https://nowcoast.noaa.gov/geoserver/observations/lightning_detection/ows?service=WMS&request=GetCapabilities'')"
    by (simp add: lower_def lower_char_def char_of_def bit_Suc_0_iff)
  show ?thesis
    using lightning_without_path[OF a b, where request = "\<lambda>url. Returned ''<WMS_Capabilities/>''"] c
    by (simp add: lightning_base_url_def prod_eq_iff)
qed

text \<open>
  The claim as written fails on the lightning endpoint of server_code_correct.py, which
  reads \<open>path\<close> first: the request \<open>service=WMS&request=GetCapabilities\<close> is answered
  400 and nothing is requested upstream.
\<close>

theorem correct_lightning_requires_path:
  "correct_proxy_lightning_weather (\<lambda>url. Returned ''<WMS_Capabilities/>'')
        [(''service'', ''WMS''), (''request'', ''GetCapabilities'')]
     = (missing_path, [])
   \<and> http_status missing_path = 400"
  by (simp add: correct_proxy_lightning_weather_def dict_get_def status_simps)

section \<open>The leading slash of the path\<close>

text \<open>
  C10, as the code has it. On the NOAA, aviation and buoy endpoints (of both files), for
  every non-empty path \<open>p\<close> that does not begin with \<open>/\<close>, the requests with \<open>path = p\<close>
  and with \<open>path = '/' + p\<close> (all other parameters equal) give the same result: the same
  response and the same upstream URL, which is the origin followed by \<open>'/' + p\<close> and the
  forwarded parameters.
\<close>

theorem leading_slash_normalised:
  assumes "p \<noteq> []" and "\<not> startswith p ''/''"
  shows "fixed_proxy_noaa_weather request (AList.update ''path'' p kwargs)
           = fixed_proxy_noaa_weather request (AList.update ''path'' (''/'' @ p) kwargs)
       \<and> fixed_proxy_aviation_weather request (AList.update ''path'' p kwargs)
           = fixed_proxy_aviation_weather request (AList.update ''path'' (''/'' @ p) kwargs)
       \<and> fixed_proxy_buoy_weather request (AList.update ''path'' p kwargs)
           = fixed_proxy_buoy_weather request (AList.update ''path'' (''/'' @ p) kwargs)
       \<and> correct_proxy_noaa_weather request (AList.update ''path'' p kwargs)
           = correct_proxy_noaa_weather request (AList.update ''path'' (''/'' @ p) kwargs)
       \<and> correct_proxy_aviation_weather request (AList.update ''path'' p kwargs)
           = correct_proxy_aviation_weather request (AList.update ''path'' (''/'' @ p) kwargs)
       \<and> correct_proxy_buoy_weather request (AList.update ''path'' p kwargs)
           = correct_proxy_buoy_weather request (AList.update ''path'' (''/'' @ p) kwargs)
       \<and> snd (fixed_proxy_noaa_weather request (AList.update ''path'' p kwargs))
           = [spec_upstream_url ''https://nowcoast.noaa.gov'' (''/'' @ p) kwargs]
       \<and> snd (correct_proxy_buoy_weather request (AList.update ''path'' p kwargs))
           = [spec_upstream_url ''https://www.ndbc.noaa.gov'' (''/'' @ p) kwargs]"
proof -
  have params: "spec_upstream_url origin remainder (AList.update ''path'' v kwargs)
                  = spec_upstream_url origin remainder kwargs" for origin remainder v
    by (simp add: spec_upstream_url_eq query_pairs_update_path)
  have slash: "with_slash p = ''/'' @ p"
    using assms(2) by (simp add: with_slash_def)
  have noaa: "snd (fixed_proxy_noaa_weather request (AList.update ''path'' p kwargs))
           = [spec_upstream_url ''https://nowcoast.noaa.gov'' (''/'' @ p) kwargs]"
    using assms(1) fixed_noaa_url[of "AList.update ''path'' p kwargs" request]
    by (simp add: params slash)
  have buoy: "snd (correct_proxy_buoy_weather request (AList.update ''path'' p kwargs))
           = [spec_upstream_url ''https://www.ndbc.noaa.gov'' (''/'' @ p) kwargs]"
    using assms(1) correct_buoy_url[of "AList.update ''path'' p kwargs" request]
    by (simp add: params slash)
  show ?thesis
    using fixed_noaa_slash[OF assms] fixed_aviation_slash[OF assms] fixed_buoy_slash[OF assms]
      correct_noaa_slash[OF assms] correct_aviation_slash[OF assms]
      correct_buoy_slash[OF assms] noaa buoy
    by blast
qed

theorem leading_slash_normalised_witness:
  "''data/realtime2/42001.txt'' \<noteq> []
   \<and> \<not> startswith ''data/realtime2/42001.txt'' ''/''
   \<and> snd (correct_proxy_buoy_weather (\<lambda>url. Returned ''ok'')
            (AList.update ''path'' ''data/realtime2/42001.txt'' []))
       = [''https://www.ndbc.noaa.gov/data/realtime2/42001.txt'']
   \<and> snd (correct_proxy_buoy_weather (\<lambda>url. Returned ''ok'')
            (AList.update ''path'' ''/data/realtime2/42001.txt'' []))
       = [''https://www.ndbc.noaa.gov/data/realtime2/42001.txt'']"
proof -
  have a: "''data/realtime2/42001.txt'' \<noteq> []" by simp
  have b: "\<not> startswith ''data/realtime2/42001.txt'' ''/''" by simp
  show ?thesis
    using leading_slash_normalised[OF a b, where request = "\<lambda>url. Returned ''ok''" and kwargs = "[]"]
    by (auto simp add: spec_upstream_url_def)
qed

text \<open>
  The claim as written (every path that does not begin with \<open>/\<close>) fails for the empty
  path: \<open>path = ''\<close> is answered 400 and nothing is requested, while \<open>path = '/'\<close>
  requests the origin's root.
\<close>

theorem empty_path_not_normalised:
  "\<not> startswith '''' ''/''
   \<and> fixed_proxy_noaa_weather (\<lambda>url. Returned ''ok'') (AList.update ''path'' '''' [])
       = (missing_path, [])
   \<and> snd (fixed_proxy_noaa_weather (\<lambda>url. Returned ''ok'') (AList.update ''path'' (''/'' @ '''') []))
       = [''https://nowcoast.noaa.gov/'']
   \<and> correct_proxy_buoy_weather (\<lambda>url. Returned ''ok'') (AList.update ''path'' '''' [])
       = (missing_path, [])
   \<and> snd (correct_proxy_buoy_weather (\<lambda>url. Returned ''ok'') (AList.update ''path'' (''/'' @ '''') []))
       = [''https://www.ndbc.noaa.gov/'']"
  by (simp add: fixed_proxy_noaa_weather_def correct_proxy_buoy_weather_def dict_get_def
        add_query_def query_pairs_def Let_def)

end
